theory Spec2Isabelle
  imports Main "HOL-Library.Multiset"
begin

section \<open>The visual console of \<^verbatim>\<open>VisualConsole.ts\<close>\<close>

text \<open>
  A shallow embedding of \<^verbatim>\<open>src/visual_console/src/VisualConsole.ts\<close>: the console
  props decoder, the item factory \<^verbatim>\<open>itemInstanceFrom\<close> and the class
  \<^verbatim>\<open>VisualConsole\<close> (constructor, the \<^verbatim>\<open>props\<close> accessors, \<^verbatim>\<open>render\<close>,
  \<^verbatim>\<open>sizeChanged\<close>, \<^verbatim>\<open>resizeElement\<close>, \<^verbatim>\<open>resize\<close>).

  Numbers are modelled as \<^typ>\<open>int\<close>: the decoders of the file produce every number
  with \<^verbatim>\<open>parseInt\<close>. Fractions, infinities and \<^verbatim>\<open>NaN\<close> are outside the model.
  A thrown \<^verbatim>\<open>TypeError\<close> is the \<open>Inl\<close> branch of a sum.
\<close>

subsection \<open>Widget instances\<close>

datatype error = TypeError string

text \<open>The identity of a DOM element.\<close>

datatype HTMLElement = Element nat

text \<open>
  The only click handler this file registers:
  \<^verbatim>\<open>e => console.log(`Clicked element #${e.data.id}`, e)\<close>.
\<close>

datatype ClickHandler = LogClicked

text \<open>
  The classes \<^verbatim>\<open>VisualConsoleItem\<close>, \<^verbatim>\<open>StaticGraph\<close>, \<^verbatim>\<open>Icon\<close>,
  \<^verbatim>\<open>ColorCloud\<close> and \<^verbatim>\<open>Group\<close> are imported by the file and not part of it. An
  instance is modelled by what the file reads from it: \<^verbatim>\<open>props.id\<close>,
  \<^verbatim>\<open>props.isOnTop\<close>, \<^verbatim>\<open>elementRef\<close>, and the handlers given to \<^verbatim>\<open>onClick\<close>.
\<close>

record VisualConsoleItemProps =
  id_item :: int
  isOnTop :: bool

record VisualConsoleItem =
  props :: VisualConsoleItemProps
  elementRef :: HTMLElement
  clickHandlers :: "ClickHandler list"

text \<open>
  Modelled from the spec: \<^verbatim>\<open>VisualConsoleItem.onClick\<close> is not under src/. The spec
  (4.3) has it register the handler, several subscribers allowed, in registration order.
\<close>

definition onClick :: "ClickHandler \<Rightarrow> VisualConsoleItem \<Rightarrow> VisualConsoleItem" where
  "onClick h item = item\<lparr>clickHandlers := clickHandlers item @ [h]\<rparr>"

subsection \<open>The stacking comparator and the sort\<close>

text \<open>
  The comparator given to \<^verbatim>\<open>this.elements.sort\<close> (lines 158 to 163), branch by branch.
\<close>

definition stackingCompare :: "VisualConsoleItem \<Rightarrow> VisualConsoleItem \<Rightarrow> int" where
  "stackingCompare a b =
     (if isOnTop (props a) \<and> \<not> isOnTop (props b) then 1
      else if \<not> isOnTop (props a) \<and> isOnTop (props b) then - 1
      else if id_item (props a) < id_item (props b) then 1
      else - 1)"

text \<open>
  \<^verbatim>\<open>Array.prototype.sort(comparefn)\<close> is a builtin. ECMAScript fixes its result as the
  stable sorted permutation when the comparator is consistent, and leaves the order to the
  implementation otherwise (the result is a permutation in every case). It is modelled by a
  stable insertion sort: an element moves behind its neighbour exactly when the comparator
  is positive on the pair.

  The comparator above never returns 0, so it is consistent only on instances whose keys
  (\<^verbatim>\<open>isOnTop\<close>, id) are pairwise distinct. On instances that share a key an engine is
  free to order them either way, and engines do reverse such a pair where the model keeps
  it. The model therefore stands for the builtin in two kinds of statement only: those
  about instances with pairwise distinct ids, where the sorted permutation is unique, and
  those that hold of every permutation of the result.
\<close>

fun array_insert :: "('a \<Rightarrow> 'a \<Rightarrow> int) \<Rightarrow> 'a \<Rightarrow> 'a list \<Rightarrow> 'a list" where
  "array_insert cmp x [] = [x]"
| "array_insert cmp x (y # ys) =
     (if 0 < cmp x y then y # array_insert cmp x ys else x # y # ys)"

fun array_sort :: "('a \<Rightarrow> 'a \<Rightarrow> int) \<Rightarrow> 'a list \<Rightarrow> 'a list" where
  "array_sort cmp [] = []"
| "array_sort cmp (x # xs) = array_insert cmp x (array_sort cmp xs)"

text \<open>The sort of the constructor: \<^verbatim>\<open>this.elements.sort(function(a, b) {...})\<close>.\<close>

definition sortElements :: "VisualConsoleItem list \<Rightarrow> VisualConsoleItem list" where
  "sortElements es = array_sort stackingCompare es"

text \<open>
  A list is in comparator order when the comparator is negative on every pair taken in
  list order: no pair asks to be swapped.
\<close>

definition inStackingOrder :: "VisualConsoleItem list \<Rightarrow> bool" where
  "inStackingOrder es = sorted_wrt (\<lambda>a b. stackingCompare a b < 0) es"

subsection \<open>Raw field bags and the builtin \<^verbatim>\<open>parseInt\<close>\<close>

text \<open>
  The values a raw field bag carries. \<^verbatim>\<open>JNum n\<close> is an integer-valued number
  whose \<^verbatim>\<open>ToString\<close> is its decimal numeral (magnitude below \<^verbatim>\<open>1e21\<close>).
\<close>

datatype jsval = JUndefined | JNull | JBool bool | JNum int | JStr string

text \<open>
  \<^verbatim>\<open>UnknownObject\<close>: reading a property the object does not have gives
  \<^verbatim>\<open>undefined\<close>.
\<close>

type_synonym UnknownObject = "string \<Rightarrow> jsval"

text \<open>\<^verbatim>\<open>x == null\<close> holds for \<^verbatim>\<open>null\<close> and \<^verbatim>\<open>undefined\<close> only.\<close>

definition looseNull :: "jsval \<Rightarrow> bool" where
  "looseNull v = (v = JNull \<or> v = JUndefined)"

definition digitChar :: "nat \<Rightarrow> char" where
  "digitChar d = ''0123456789'' ! (d mod 10)"

fun digitsOf :: "nat \<Rightarrow> string" where
  "digitsOf n = (if n < 10 then [digitChar n] else digitsOf (n div 10) @ [digitChar n])"

declare digitsOf.simps [simp del]

definition numberToString :: "int \<Rightarrow> string" where
  "numberToString n = (if n < 0 then CHR ''-'' # digitsOf (nat (- n)) else digitsOf (nat n))"

definition toString :: "jsval \<Rightarrow> string" where
  "toString v =
     (case v of
        JUndefined \<Rightarrow> ''undefined''
      | JNull \<Rightarrow> ''null''
      | JBool b \<Rightarrow> (if b then ''true'' else ''false'')
      | JNum n \<Rightarrow> numberToString n
      | JStr s \<Rightarrow> s)"

text \<open>
  \<^verbatim>\<open>parseInt(string)\<close> with no radix, after ECMAScript: skip leading white space,
  take a sign, take a \<^verbatim>\<open>0x\<close> prefix as radix 16, read the longest prefix of digits of
  the radix; no digit gives \<^verbatim>\<open>NaN\<close>, here \<open>None\<close>.
\<close>

definition isWhiteSpace :: "char \<Rightarrow> bool" where
  "isWhiteSpace c = (of_char c \<in> {9, 10, 11, 12, 13, 32, 160 :: nat})"

definition digitValue :: "char \<Rightarrow> nat option" where
  "digitValue c =
     (let n = (of_char c :: nat) in
      if 48 \<le> n \<and> n \<le> 57 then Some (n - 48)
      else if 97 \<le> n \<and> n \<le> 122 then Some (n - 87)
      else if 65 \<le> n \<and> n \<le> 90 then Some (n - 55)
      else None)"

definition radixDigit :: "nat \<Rightarrow> char \<Rightarrow> nat option" where
  "radixDigit R c =
     (case digitValue c of None \<Rightarrow> None | Some d \<Rightarrow> if d < R then Some d else None)"

fun readDigits :: "nat \<Rightarrow> string \<Rightarrow> nat option \<Rightarrow> nat option" where
  "readDigits R [] acc = acc"
| "readDigits R (c # cs) acc =
     (case radixDigit R c of
        None \<Rightarrow> acc
      | Some d \<Rightarrow> readDigits R cs (Some ((case acc of None \<Rightarrow> 0 | Some a \<Rightarrow> a) * R + d)))"

definition parseIntString :: "string \<Rightarrow> int option" where
  "parseIntString str =
     (let s = dropWhile isWhiteSpace str;
          sign = (if take 1 s = ''-'' then - 1 else 1 :: int);
          s1 = (if take 1 s = ''-'' \<or> take 1 s = ''+'' then drop 1 s else s);
          hex = (take 2 s1 = ''0x'' \<or> take 2 s1 = ''0X'');
          R = (if hex then 16 else 10);
          s2 = (if hex then drop 2 s1 else s1)
      in case readDigits R s2 None of
           None \<Rightarrow> None
         | Some m \<Rightarrow> Some (sign * int m))"

definition parseInt :: "jsval \<Rightarrow> int option" where
  "parseInt v = parseIntString (toString v)"

text \<open>
  Modelled from the spec: \<^verbatim>\<open>parseIntOr\<close> of \<^verbatim>\<open>./lib\<close> is not under src/. The spec
  (4.1, 4.2) treats a field that is present but not integer-parseable like a missing one;
  the helper gives the parsed integer, and the default in those two cases.
\<close>

definition parseIntOr :: "jsval \<Rightarrow> int option \<Rightarrow> int option" where
  "parseIntOr v defaultValue =
     (if looseNull v then defaultValue
      else case parseInt v of None \<Rightarrow> defaultValue | Some n \<Rightarrow> Some n)"

subsection \<open>Console props and their decoder\<close>

record Size =
  width :: int
  height :: int

record VisualConsoleProps = Size +
  id_console :: int
  name :: string
  groupId :: int
  backgroundURL :: "string option"
  backgroundColor :: "string option"
  isFavorite :: bool

text \<open>The enumeration \<^verbatim>\<open>VisualConsoleItemType\<close>, by the names the switch uses.\<close>

datatype VisualConsoleItemType =
    STATIC_GRAPH | MODULE_GRAPH | SIMPLE_VALUE | PERCENTILE_BAR | LABEL | ICON
  | SIMPLE_VALUE_MAX | SIMPLE_VALUE_MIN | SIMPLE_VALUE_AVG | PERCENTILE_BUBBLE | SERVICE
  | GROUP_ITEM | BOX_ITEM | LINE_ITEM | AUTO_SLA_GRAPH | CIRCULAR_PROGRESS_BAR
  | CIRCULAR_INTERIOR_PROGRESS_BAR | DONUT_GRAPH | BARS_GRAPH | CLOCK | COLOR_CLOUD

text \<open>
  What the file imports and does not define is a parameter of the model:
  \<^verbatim>\<open>parseBoolean\<close> and \<^verbatim>\<open>sizePropsDecoder\<close> of \<^verbatim>\<open>./lib\<close>, the numeric value of
  each member of the enumeration, and for each implemented variant the composition the
  switch calls, as in \<^verbatim>\<open>new Icon(iconPropsDecoder(data))\<close>, which returns an instance
  or throws.
\<close>

record Imports =
  parseBoolean :: "jsval \<Rightarrow> bool"
  sizePropsDecoder :: "UnknownObject \<Rightarrow> error + Size"
  itemTypeValue :: "VisualConsoleItemType \<Rightarrow> int"
  newStaticGraph :: "UnknownObject \<Rightarrow> error + VisualConsoleItem"
  newIcon :: "UnknownObject \<Rightarrow> error + VisualConsoleItem"
  newGroup :: "UnknownObject \<Rightarrow> error + VisualConsoleItem"
  newColorCloud :: "UnknownObject \<Rightarrow> error + VisualConsoleItem"

text \<open>
  \<^verbatim>\<open>typeof v === "string" && v.length > 0 ? v : null\<close>, used for both backgrounds.
\<close>

definition nonEmptyStringOrNull :: "jsval \<Rightarrow> string option" where
  "nonEmptyStringOrNull v = (case v of JStr s \<Rightarrow> if 0 < length s then Some s else None | _ \<Rightarrow> None)"

text \<open>
  \<^verbatim>\<open>visualConsolePropsDecoder\<close>: the three checks in the order of the source, then the
  object literal, whose last entry spreads \<^verbatim>\<open>sizePropsDecoder(data)\<close> and throws when
  that throws.
\<close>

definition visualConsolePropsDecoder :: "Imports \<Rightarrow> UnknownObject \<Rightarrow> error + VisualConsoleProps" where
  "visualConsolePropsDecoder L data =
     (if looseNull (data ''id'') then Inl (TypeError ''invalid Id.'')
      else case parseInt (data ''id'') of
        None \<Rightarrow> Inl (TypeError ''invalid Id.'')
      | Some idN \<Rightarrow>
         (case data ''name'' of
            JStr nameS \<Rightarrow>
              if length nameS = 0 then Inl (TypeError ''invalid name.'')
              else if looseNull (data ''groupId'') then Inl (TypeError ''invalid group Id.'')
              else (case parseInt (data ''groupId'') of
                 None \<Rightarrow> Inl (TypeError ''invalid group Id.'')
               | Some groupIdN \<Rightarrow>
                  (case sizePropsDecoder L data of
                     Inl e \<Rightarrow> Inl e
                   | Inr sz \<Rightarrow>
                      Inr \<lparr>width = width sz, height = height sz,
                           id_console = idN,
                           name = nameS,
                           groupId = groupIdN,
                           backgroundURL = nonEmptyStringOrNull (data ''backgroundURL''),
                           backgroundColor = nonEmptyStringOrNull (data ''backgroundColor''),
                           isFavorite = parseBoolean L (data ''isFavorite'')\<rparr>))
          | _ \<Rightarrow> Inl (TypeError ''invalid name.'')))"

subsection \<open>The item factory\<close>

text \<open>
  \<^verbatim>\<open>itemInstanceFrom\<close>: the switch compares the number with each member in the order
  of the source; every case returns or throws, so the first equal member decides.
\<close>

definition itemInstanceFrom :: "Imports \<Rightarrow> UnknownObject \<Rightarrow> error + VisualConsoleItem" where
  "itemInstanceFrom L data =
     (case parseIntOr (data ''type'') None of
        None \<Rightarrow> Inl (TypeError ''missing item type.'')
      | Some t \<Rightarrow>
          if t = itemTypeValue L STATIC_GRAPH then newStaticGraph L data
          else if t = itemTypeValue L MODULE_GRAPH then Inl (TypeError ''item not found'')
          else if t = itemTypeValue L SIMPLE_VALUE then Inl (TypeError ''item not found'')
          else if t = itemTypeValue L PERCENTILE_BAR then Inl (TypeError ''item not found'')
          else if t = itemTypeValue L LABEL then Inl (TypeError ''item not found'')
          else if t = itemTypeValue L ICON then newIcon L data
          else if t = itemTypeValue L SIMPLE_VALUE_MAX then Inl (TypeError ''item not found'')
          else if t = itemTypeValue L SIMPLE_VALUE_MIN then Inl (TypeError ''item not found'')
          else if t = itemTypeValue L SIMPLE_VALUE_AVG then Inl (TypeError ''item not found'')
          else if t = itemTypeValue L PERCENTILE_BUBBLE then Inl (TypeError ''item not found'')
          else if t = itemTypeValue L SERVICE then Inl (TypeError ''item not found'')
          else if t = itemTypeValue L GROUP_ITEM then newGroup L data
          else if t = itemTypeValue L BOX_ITEM then Inl (TypeError ''item not found'')
          else if t = itemTypeValue L LINE_ITEM then Inl (TypeError ''item not found'')
          else if t = itemTypeValue L AUTO_SLA_GRAPH then Inl (TypeError ''item not found'')
          else if t = itemTypeValue L CIRCULAR_PROGRESS_BAR then Inl (TypeError ''item not found'')
          else if t = itemTypeValue L CIRCULAR_INTERIOR_PROGRESS_BAR
            then Inl (TypeError ''item not found'')
          else if t = itemTypeValue L DONUT_GRAPH then Inl (TypeError ''item not found'')
          else if t = itemTypeValue L BARS_GRAPH then Inl (TypeError ''item not found'')
          else if t = itemTypeValue L CLOCK then Inl (TypeError ''item not found'')
          else if t = itemTypeValue L COLOR_CLOUD then newColorCloud L data
          else Inl (TypeError ''item not found''))"

subsection \<open>The surface and the console\<close>

text \<open>
  The container element: the four style properties the file assigns, with the value last
  assigned, its child elements in document order, and the assignments to the style in
  program order.
\<close>

datatype StyleProperty = BackgroundImage | BackgroundColor | Width | Height

record Container =
  style :: "StyleProperty \<Rightarrow> string option"
  children :: "HTMLElement list"
  mutations :: "(StyleProperty \<times> string option) list"

text \<open>An assignment \<^verbatim>\<open>containerRef.style.p = v\<close>.\<close>

definition setStyle :: "StyleProperty \<Rightarrow> string option \<Rightarrow> Container \<Rightarrow> Container" where
  "setStyle p v c = c\<lparr>style := (style c)(p := v), mutations := mutations c @ [(p, v)]\<rparr>"

text \<open>
  The builtin \<^verbatim>\<open>container.append(node)\<close>: the node becomes the last child; a node that
  is a child already moves there.
\<close>

definition appendChild :: "HTMLElement \<Rightarrow> Container \<Rightarrow> Container" where
  "appendChild e c = c\<lparr>children := removeAll e (children c) @ [e]\<rparr>"

text \<open>
  The object: \<^verbatim>\<open>containerRef\<close>, \<^verbatim>\<open>_props\<close> (here \<open>props'\<close>), \<^verbatim>\<open>elements\<close>,
  and the lines the constructor prints with \<^verbatim>\<open>console.log\<close>.
\<close>

record VisualConsole =
  containerRef :: Container
  props' :: VisualConsoleProps
  elements :: "VisualConsoleItem list"
  consoleLog :: "string list"

definition get_props :: "VisualConsole \<Rightarrow> VisualConsoleProps" where
  "get_props this = props' this"

definition sizeChanged :: "'a Size_scheme \<Rightarrow> 'b Size_scheme \<Rightarrow> bool" where
  "sizeChanged prevSize newSize =
     (width prevSize \<noteq> width newSize \<or> height prevSize \<noteq> height newSize)"

definition resizeElement :: "int \<Rightarrow> int \<Rightarrow> VisualConsole \<Rightarrow> VisualConsole" where
  "resizeElement w h this =
     (let c1 = setStyle Width (Some (numberToString w @ ''px'')) (containerRef this);
          c2 = setStyle Height (Some (numberToString h @ ''px'')) c1
      in this\<lparr>containerRef := c2\<rparr>)"

text \<open>\<^verbatim>\<open>render(prevProps)\<close>; \<open>None\<close> is the default \<^verbatim>\<open>null\<close>.\<close>

definition render :: "VisualConsoleProps option \<Rightarrow> VisualConsole \<Rightarrow> VisualConsole" where
  "render prevProps this =
     (case prevProps of
        Some prev \<Rightarrow>
          (let s1 = (if backgroundURL prev \<noteq> backgroundURL (get_props this)
                     then this\<lparr>containerRef :=
                            setStyle BackgroundImage (backgroundURL (get_props this))
                              (containerRef this)\<rparr>
                     else this);
               s2 = (if backgroundColor prev \<noteq> backgroundColor (get_props s1)
                     then s1\<lparr>containerRef :=
                            setStyle BackgroundColor (backgroundColor (get_props s1))
                              (containerRef s1)\<rparr>
                     else s1)
           in if sizeChanged prev (get_props s2)
              then resizeElement (width (get_props s2)) (height (get_props s2)) s2
              else s2)
      | None \<Rightarrow>
          (let s1 = this\<lparr>containerRef :=
                      setStyle BackgroundImage (backgroundURL (get_props this))
                        (containerRef this)\<rparr>;
               s2 = s1\<lparr>containerRef :=
                      setStyle BackgroundColor (backgroundColor (get_props s1))
                        (containerRef s1)\<rparr>
           in resizeElement (width (get_props s2)) (height (get_props s2)) s2))"

text \<open>The setter \<^verbatim>\<open>set props(newProps)\<close>.\<close>

definition set_props :: "VisualConsoleProps \<Rightarrow> VisualConsole \<Rightarrow> VisualConsole" where
  "set_props newProps this =
     (let prevProps = get_props this;
          this1 = this\<lparr>props' := newProps\<rparr>
      in render (Some prevProps) this1)"

text \<open>\<^verbatim>\<open>resize(width, height)\<close>: the spread of the stored props, then the two fields.\<close>

definition resize :: "int \<Rightarrow> int \<Rightarrow> VisualConsole \<Rightarrow> VisualConsole" where
  "resize w h this = set_props ((get_props this)\<lparr>width := w, height := h\<rparr>) this"

text \<open>
  The callback of \<^verbatim>\<open>items.forEach\<close>, with its \<^verbatim>\<open>try\<close> and \<^verbatim>\<open>catch\<close>. The array
  holds a reference to the instance, so the handler registered after the push is seen
  through the array: the model stores the instance with the handler.
\<close>

definition message :: "error \<Rightarrow> string" where
  "message e = (case e of TypeError m \<Rightarrow> m)"

definition addItem :: "Imports \<Rightarrow> VisualConsole \<Rightarrow> UnknownObject \<Rightarrow> VisualConsole" where
  "addItem L this item =
     (case itemInstanceFrom L item of
        Inr itemInstance \<Rightarrow>
          this\<lparr>elements := elements this @ [onClick LogClicked itemInstance],
               containerRef := appendChild (elementRef itemInstance) (containerRef this)\<rparr>
      | Inl e \<Rightarrow>
          this\<lparr>consoleLog := consoleLog this @ [''Error creating a new element: '' @ message e]\<rparr>)"

text \<open>The constructor: first render, the loop over the descriptors, the sort.\<close>

definition new_VisualConsole ::
  "Imports \<Rightarrow> Container \<Rightarrow> VisualConsoleProps \<Rightarrow> UnknownObject list \<Rightarrow> VisualConsole" where
  "new_VisualConsole L container p items =
     (let this0 = \<lparr>containerRef = container, props' = p, elements = [], consoleLog = []\<rparr>;
          this1 = render None this0;
          this2 = foldl (addItem L) this1 items
      in this2\<lparr>elements := sortElements (elements this2)\<rparr>)"

text \<open>
  The instances the loop creates, in the order of the descriptors: one for each descriptor
  the factory accepts.
\<close>

definition created :: "Imports \<Rightarrow> UnknownObject list \<Rightarrow> VisualConsoleItem list" where
  "created L items =
     concat (map (\<lambda>item. case itemInstanceFrom L item of
                            Inr i \<Rightarrow> [onClick LogClicked i]
                          | Inl e \<Rightarrow> []) items)"

definition failing :: "Imports \<Rightarrow> UnknownObject list \<Rightarrow> UnknownObject list" where
  "failing L items = filter (\<lambda>item. isl (itemInstanceFrom L item)) items"

subsection \<open>Concrete inputs\<close>

text \<open>
  An object literal: the listed properties, \<^verbatim>\<open>undefined\<close> for every other name.
\<close>

definition object :: "(string \<times> jsval) list \<Rightarrow> UnknownObject" where
  "object kvs k = (case map_of kvs k of None \<Rightarrow> JUndefined | Some v \<Rightarrow> v)"

text \<open>
  One instance of the parameters, to evaluate the model at concrete inputs. The members of
  the enumeration are numbered from 0 in the order of their declaration, as TypeScript
  numbers an enumeration without initialisers; the boolean coercion accepts
  \<^verbatim>\<open>true\<close>, \<^verbatim>\<open>1\<close>, \<^verbatim>\<open>"1"\<close> and \<^verbatim>\<open>"true"\<close>; the size decoder wants two
  integer-parseable fields; each implemented variant wants an integer-parseable id and
  creates an element of its own.
\<close>

fun demoItemTypeValue :: "VisualConsoleItemType \<Rightarrow> int" where
  "demoItemTypeValue STATIC_GRAPH = 0"
| "demoItemTypeValue MODULE_GRAPH = 1"
| "demoItemTypeValue SIMPLE_VALUE = 2"
| "demoItemTypeValue PERCENTILE_BAR = 3"
| "demoItemTypeValue LABEL = 4"
| "demoItemTypeValue ICON = 5"
| "demoItemTypeValue SIMPLE_VALUE_MAX = 6"
| "demoItemTypeValue SIMPLE_VALUE_MIN = 7"
| "demoItemTypeValue SIMPLE_VALUE_AVG = 8"
| "demoItemTypeValue PERCENTILE_BUBBLE = 9"
| "demoItemTypeValue SERVICE = 10"
| "demoItemTypeValue GROUP_ITEM = 11"
| "demoItemTypeValue BOX_ITEM = 12"
| "demoItemTypeValue LINE_ITEM = 13"
| "demoItemTypeValue AUTO_SLA_GRAPH = 14"
| "demoItemTypeValue CIRCULAR_PROGRESS_BAR = 15"
| "demoItemTypeValue CIRCULAR_INTERIOR_PROGRESS_BAR = 16"
| "demoItemTypeValue DONUT_GRAPH = 17"
| "demoItemTypeValue BARS_GRAPH = 18"
| "demoItemTypeValue CLOCK = 19"
| "demoItemTypeValue COLOR_CLOUD = 20"

definition demoParseBoolean :: "jsval \<Rightarrow> bool" where
  "demoParseBoolean v = (v = JBool True \<or> v = JNum 1 \<or> v = JStr ''1'' \<or> v = JStr ''true'')"

definition demoSizePropsDecoder :: "UnknownObject \<Rightarrow> error + Size" where
  "demoSizePropsDecoder data =
     (if looseNull (data ''width'') \<or> looseNull (data ''height'')
      then Inl (TypeError ''invalid size.'')
      else case parseInt (data ''width'') of
        None \<Rightarrow> Inl (TypeError ''invalid size.'')
      | Some w \<Rightarrow>
         (case parseInt (data ''height'') of
            None \<Rightarrow> Inl (TypeError ''invalid size.'')
          | Some h \<Rightarrow> Inr \<lparr>width = w, height = h\<rparr>))"

definition demoItem :: "UnknownObject \<Rightarrow> error + VisualConsoleItem" where
  "demoItem data =
     (if looseNull (data ''id'') then Inl (TypeError ''invalid id.'')
      else case parseInt (data ''id'') of
        None \<Rightarrow> Inl (TypeError ''invalid id.'')
      | Some n \<Rightarrow>
          Inr \<lparr>props = \<lparr>id_item = n, isOnTop = demoParseBoolean (data ''isOnTop'')\<rparr>,
               elementRef = Element (nat n),
               clickHandlers = []\<rparr>)"

definition demoImports :: Imports where
  "demoImports =
     \<lparr>parseBoolean = demoParseBoolean,
      sizePropsDecoder = demoSizePropsDecoder,
      itemTypeValue = demoItemTypeValue,
      newStaticGraph = demoItem,
      newIcon = demoItem,
      newGroup = demoItem,
      newColorCloud = demoItem\<rparr>"

definition emptyContainer :: Container where
  "emptyContainer = \<lparr>style = (\<lambda>p. None), children = [], mutations = []\<rparr>"

definition exampleProps :: VisualConsoleProps where
  "exampleProps =
     \<lparr>width = 800, height = 600, id_console = 1, name = ''console'', groupId = 3,
      backgroundURL = Some ''bg.png'', backgroundColor = Some ''white'', isFavorite = False\<rparr>"

definition exampleConsole :: VisualConsole where
  "exampleConsole =
     \<lparr>containerRef = emptyContainer, props' = exampleProps, elements = [], consoleLog = []\<rparr>"

subsection \<open>The sort: permutation and order\<close>

lemma mset_array_insert: "mset (array_insert cmp x ys) = add_mset x (mset ys)"
  by (induction ys) simp_all

lemma mset_array_sort: "mset (array_sort cmp xs) = mset xs"
  by (induction xs) (simp_all add: mset_array_insert)

lemma set_array_insert: "set (array_insert cmp x ys) = insert x (set ys)"
  using mset_array_insert [of cmp x ys] by (metis set_mset_add_mset_insert set_mset_mset)

lemma stackingCompare_values: "stackingCompare a b = 1 \<or> stackingCompare a b = - 1"
  by (simp add: stackingCompare_def)

lemma stackingCompare_neg_iff:
  "stackingCompare a b < 0 \<longleftrightarrow>
     (\<not> isOnTop (props a) \<and> isOnTop (props b)) \<or>
     (isOnTop (props a) = isOnTop (props b) \<and> id_item (props b) \<le> id_item (props a))"
  by (auto simp add: stackingCompare_def)

lemma stackingCompare_flip: "0 < stackingCompare a b \<Longrightarrow> stackingCompare b a < 0"
  by (auto simp add: stackingCompare_def split: if_splits)

lemma stackingCompare_not_pos: "\<not> 0 < stackingCompare a b \<Longrightarrow> stackingCompare a b < 0"
  using stackingCompare_values [of a b] by auto

lemma stackingCompare_trans:
  "stackingCompare a b < 0 \<Longrightarrow> stackingCompare b c < 0 \<Longrightarrow> stackingCompare a c < 0"
  unfolding stackingCompare_neg_iff by auto

lemma inStackingOrder_insert:
  "inStackingOrder ys \<Longrightarrow> inStackingOrder (array_insert stackingCompare x ys)"
proof (induction ys)
  case Nil
  then show ?case by (simp add: inStackingOrder_def)
next
  case (Cons y ys)
  show ?case
  proof (cases "0 < stackingCompare x y")
    case True
    have tail: "inStackingOrder (array_insert stackingCompare x ys)"
      using Cons by (simp add: inStackingOrder_def)
    have "\<forall>z \<in> set (array_insert stackingCompare x ys). stackingCompare y z < 0"
      using Cons.prems True
      by (auto simp add: set_array_insert inStackingOrder_def stackingCompare_flip)
    with tail True show ?thesis by (simp add: inStackingOrder_def)
  next
    case False
    then have xy: "stackingCompare x y < 0" by (rule stackingCompare_not_pos)
    have "\<forall>z \<in> set ys. stackingCompare x z < 0"
      using Cons.prems xy by (auto simp add: inStackingOrder_def intro: stackingCompare_trans)
    with Cons.prems xy False show ?thesis by (simp add: inStackingOrder_def)
  qed
qed

lemma inStackingOrder_sort: "inStackingOrder (array_sort stackingCompare xs)"
  by (induction xs) (simp_all add: inStackingOrder_insert, simp add: inStackingOrder_def)

lemma stackingCompare_both_neg:
  "stackingCompare a b < 0 \<Longrightarrow> stackingCompare b a < 0 \<Longrightarrow>
     isOnTop (props a) = isOnTop (props b) \<and> id_item (props a) = id_item (props b)"
  unfolding stackingCompare_neg_iff by auto

lemma inStackingOrder_unique:
  "inStackingOrder ys \<Longrightarrow> inStackingOrder zs \<Longrightarrow> mset ys = mset zs \<Longrightarrow>
     distinct (map (\<lambda>e. id_item (props e)) ys) \<Longrightarrow> ys = zs"
proof (induction ys arbitrary: zs)
  case Nil
  then show ?case by simp
next
  case (Cons y ys)
  from Cons.prems(3) obtain z zs' where zs: "zs = z # zs'"
    by (cases zs) auto
  have sets: "set (y # ys) = set (z # zs')"
    using Cons.prems(3) zs by (metis set_mset_mset)
  have inj: "inj_on (\<lambda>e. id_item (props e)) (set (y # ys))"
    using Cons.prems(4) by (simp only: distinct_map)
  have "y = z"
  proof (rule ccontr)
    assume neq: "y \<noteq> z"
    from sets neq have "y \<in> set zs'" by auto
    with Cons.prems(2) zs have zy: "stackingCompare z y < 0"
      by (simp add: inStackingOrder_def)
    from sets neq have zin: "z \<in> set ys" by auto
    with Cons.prems(1) have yz: "stackingCompare y z < 0"
      by (simp add: inStackingOrder_def)
    from stackingCompare_both_neg [OF yz zy]
    have "id_item (props y) = id_item (props z)" by simp
    with inj zin have "y = z" by (auto dest: inj_onD)
    with neq show False by simp
  qed
  moreover have "ys = zs'"
  proof (rule Cons.IH)
    show "inStackingOrder ys" using Cons.prems(1) by (simp add: inStackingOrder_def)
    show "inStackingOrder zs'" using Cons.prems(2) zs by (simp add: inStackingOrder_def)
    show "mset ys = mset zs'" using Cons.prems(3) zs \<open>y = z\<close> by simp
    show "distinct (map (\<lambda>e. id_item (props e)) ys)" using Cons.prems(4) by simp
  qed
  ultimately show ?case using zs by simp
qed

lemma distinct_map_perm:
  assumes "mset ys = mset es" "distinct (map f es)"
  shows "distinct (map f ys)"
proof -
  have "mset (map f ys) = mset (map f es)" using assms(1) by simp
  then have "distinct (map f ys) \<longleftrightarrow> distinct (map f es)"
    by (rule mset_eq_imp_distinct_iff)
  with assms(2) show ?thesis by simp
qed

lemma inStackingOrder_nth:
  assumes "inStackingOrder ys" "i < j" "j < length ys"
  shows "stackingCompare (ys ! i) (ys ! j) < 0"
  using assms by (simp add: inStackingOrder_def sorted_wrt_iff_nth_less)

subsection \<open>C2: the order the sort yields\<close>

text \<open>
  C2. For every list of instances with pairwise distinct ids, the sort of the constructor
  returns a permutation of the list in which an instance with \<^verbatim>\<open>isOnTop\<close> true never
  precedes one with \<^verbatim>\<open>isOnTop\<close> false, and in which, among instances of equal
  \<^verbatim>\<open>isOnTop\<close>, the larger id comes first. This order is the only permutation in
  comparator order, so it does not depend on the sorting algorithm. In particular
  A (false, 1), B (false, 2), C (true, 3), listed in any order, come out as B, A, C.
\<close>

theorem sortElements_stacking_order:
  assumes "distinct (map (\<lambda>e. id_item (props e)) es)"
  shows "mset (sortElements es) = mset es \<and>
    (\<forall>i j. i < j \<and> j < length (sortElements es) \<longrightarrow>
       (isOnTop (props (sortElements es ! i)) \<longrightarrow> isOnTop (props (sortElements es ! j))) \<and>
       (isOnTop (props (sortElements es ! i)) = isOnTop (props (sortElements es ! j)) \<longrightarrow>
          id_item (props (sortElements es ! j)) < id_item (props (sortElements es ! i)))) \<and>
    (\<forall>ys. mset ys = mset es \<and> inStackingOrder ys \<longrightarrow> ys = sortElements es) \<and>
    (\<forall>a b c. props a = \<lparr>id_item = 1, isOnTop = False\<rparr> \<and>
             props b = \<lparr>id_item = 2, isOnTop = False\<rparr> \<and>
             props c = \<lparr>id_item = 3, isOnTop = True\<rparr> \<and> mset es = {#a, b, c#} \<longrightarrow>
             sortElements es = [b, a, c])"
proof -
  let ?ys = "sortElements es"
  have perm: "mset ?ys = mset es"
    by (simp add: sortElements_def mset_array_sort)
  have ord: "inStackingOrder ?ys"
    by (simp add: sortElements_def inStackingOrder_sort)
  have dist: "distinct (map (\<lambda>e. id_item (props e)) ?ys)"
    using perm assms by (rule distinct_map_perm)
  have pos: "(isOnTop (props (?ys ! i)) \<longrightarrow> isOnTop (props (?ys ! j))) \<and>
       (isOnTop (props (?ys ! i)) = isOnTop (props (?ys ! j)) \<longrightarrow>
          id_item (props (?ys ! j)) < id_item (props (?ys ! i)))"
    if ij: "i < j" "j < length ?ys" for i j
  proof -
    have neg: "stackingCompare (?ys ! i) (?ys ! j) < 0"
      using ord ij by (rule inStackingOrder_nth)
    have "id_item (props (?ys ! i)) \<noteq> id_item (props (?ys ! j))"
      using nth_eq_iff_index_eq [OF dist, of i j] ij by simp
    with neg show ?thesis unfolding stackingCompare_neg_iff by auto
  qed
  have uniq: "ys = ?ys" if "mset ys = mset es" "inStackingOrder ys" for ys
  proof (rule inStackingOrder_unique)
    show "inStackingOrder ys" by (rule that(2))
    show "inStackingOrder ?ys" by (rule ord)
    show "mset ys = mset ?ys" using that(1) perm by simp
    show "distinct (map (\<lambda>e. id_item (props e)) ys)"
      using that(1) assms by (rule distinct_map_perm)
  qed
  have ex: "sortElements es = [b, a, c]"
    if "props a = \<lparr>id_item = 1, isOnTop = False\<rparr>" "props b = \<lparr>id_item = 2, isOnTop = False\<rparr>"
       "props c = \<lparr>id_item = 3, isOnTop = True\<rparr>" "mset es = {#a, b, c#}" for a b c
  proof -
    have "inStackingOrder [b, a, c]"
      using that(1-3) by (simp add: inStackingOrder_def stackingCompare_def)
    moreover have "mset [b, a, c] = mset es" using that(4) by simp
    ultimately show ?thesis using uniq [of "[b, a, c]"] by simp
  qed
  from perm pos uniq ex show ?thesis by blast
qed

theorem sortElements_stacking_order_witness:
  "distinct (map (\<lambda>e. id_item (props e))
     [\<lparr>props = \<lparr>id_item = 1, isOnTop = False\<rparr>, elementRef = Element 10, clickHandlers = []\<rparr>,
      \<lparr>props = \<lparr>id_item = 2, isOnTop = False\<rparr>, elementRef = Element 11, clickHandlers = []\<rparr>,
      \<lparr>props = \<lparr>id_item = 3, isOnTop = True\<rparr>, elementRef = Element 12, clickHandlers = []\<rparr>]) \<and>
   sortElements
     [\<lparr>props = \<lparr>id_item = 1, isOnTop = False\<rparr>, elementRef = Element 10, clickHandlers = []\<rparr>,
      \<lparr>props = \<lparr>id_item = 2, isOnTop = False\<rparr>, elementRef = Element 11, clickHandlers = []\<rparr>,
      \<lparr>props = \<lparr>id_item = 3, isOnTop = True\<rparr>, elementRef = Element 12, clickHandlers = []\<rparr>] =
     [\<lparr>props = \<lparr>id_item = 2, isOnTop = False\<rparr>, elementRef = Element 11, clickHandlers = []\<rparr>,
      \<lparr>props = \<lparr>id_item = 1, isOnTop = False\<rparr>, elementRef = Element 10, clickHandlers = []\<rparr>,
      \<lparr>props = \<lparr>id_item = 3, isOnTop = True\<rparr>, elementRef = Element 12, clickHandlers = []\<rparr>]"
  (is "distinct (map ?f [?A, ?B, ?C]) \<and> _")
proof -
  have d: "distinct (map ?f [?A, ?B, ?C])" by simp
  have "\<forall>a b c. props a = \<lparr>id_item = 1, isOnTop = False\<rparr> \<and>
             props b = \<lparr>id_item = 2, isOnTop = False\<rparr> \<and>
             props c = \<lparr>id_item = 3, isOnTop = True\<rparr> \<and> mset [?A, ?B, ?C] = {#a, b, c#} \<longrightarrow>
             sortElements [?A, ?B, ?C] = [b, a, c]"
    using sortElements_stacking_order [OF d] by (elim conjE)
  then have "sortElements [?A, ?B, ?C] = [?B, ?A, ?C]" by simp
  with d show ?thesis by simp
qed

subsection \<open>C9: the comparator on equal keys\<close>

text \<open>
  C9. The comparator never returns 0. For two instances with equal \<^verbatim>\<open>isOnTop\<close> and
  equal id it returns -1 in both argument orders, so both listings of the pair are in
  comparator order: the comparator is not antisymmetric and does not fix the relative
  order of instances whose ids collide within an \<^verbatim>\<open>isOnTop\<close> group.
\<close>

theorem stackingCompare_equal_keys:
  "stackingCompare x y \<noteq> 0 \<and>
   (isOnTop (props a) = isOnTop (props b) \<and> id_item (props a) = id_item (props b) \<longrightarrow>
      stackingCompare a b = - 1 \<and> stackingCompare b a = - 1 \<and>
      inStackingOrder [a, b] \<and> inStackingOrder [b, a]) \<and>
   \<not> (\<forall>u v. stackingCompare u v < 0 \<and> stackingCompare v u < 0 \<longrightarrow> u = v)"
proof -
  have nz: "stackingCompare x y \<noteq> 0"
    using stackingCompare_values [of x y] by auto
  have eq: "stackingCompare a b = - 1 \<and> stackingCompare b a = - 1 \<and>
      inStackingOrder [a, b] \<and> inStackingOrder [b, a]"
    if "isOnTop (props a) = isOnTop (props b) \<and> id_item (props a) = id_item (props b)"
    using that by (simp add: stackingCompare_def inStackingOrder_def)
  let ?u = "\<lparr>props = \<lparr>id_item = 7, isOnTop = False\<rparr>, elementRef = Element 0, clickHandlers = []\<rparr>"
  let ?v = "\<lparr>props = \<lparr>id_item = 7, isOnTop = False\<rparr>, elementRef = Element 1, clickHandlers = []\<rparr>"
  have "stackingCompare ?u ?v < 0 \<and> stackingCompare ?v ?u < 0 \<and> ?u \<noteq> ?v"
    by (simp add: stackingCompare_def)
  then have "\<not> (\<forall>u v. stackingCompare u v < 0 \<and> stackingCompare v u < 0 \<longrightarrow> u = v)"
    by blast
  with nz eq show ?thesis by blast
qed

theorem stackingCompare_equal_keys_witness:
  "stackingCompare
     \<lparr>props = \<lparr>id_item = 7, isOnTop = False\<rparr>, elementRef = Element 0, clickHandlers = []\<rparr>
     \<lparr>props = \<lparr>id_item = 7, isOnTop = False\<rparr>, elementRef = Element 1, clickHandlers = []\<rparr> = - 1 \<and>
   stackingCompare
     \<lparr>props = \<lparr>id_item = 7, isOnTop = False\<rparr>, elementRef = Element 1, clickHandlers = []\<rparr>
     \<lparr>props = \<lparr>id_item = 7, isOnTop = False\<rparr>, elementRef = Element 0, clickHandlers = []\<rparr> = - 1"
  using stackingCompare_equal_keys
    [of "\<lparr>props = \<lparr>id_item = 7, isOnTop = False\<rparr>, elementRef = Element 0, clickHandlers = []\<rparr>"
        "\<lparr>props = \<lparr>id_item = 7, isOnTop = False\<rparr>, elementRef = Element 1, clickHandlers = []\<rparr>"
        "\<lparr>props = \<lparr>id_item = 7, isOnTop = False\<rparr>, elementRef = Element 0, clickHandlers = []\<rparr>"
        "\<lparr>props = \<lparr>id_item = 7, isOnTop = False\<rparr>, elementRef = Element 1, clickHandlers = []\<rparr>"]
  by simp

subsection \<open>The setter and the diffed render\<close>

lemma set_props_same_visuals:
  assumes "backgroundURL newProps = backgroundURL (get_props this)"
    and "backgroundColor newProps = backgroundColor (get_props this)"
    and "width newProps = width (get_props this)"
    and "height newProps = height (get_props this)"
  shows "set_props newProps this = this\<lparr>props' := newProps\<rparr>"
  using assms by (simp add: set_props_def render_def get_props_def sizeChanged_def Let_def)

text \<open>
  C3. When the new props differ from the stored ones in \<^verbatim>\<open>backgroundColor\<close> and agree
  with them in \<^verbatim>\<open>backgroundURL\<close>, \<^verbatim>\<open>width\<close> and \<^verbatim>\<open>height\<close>, the setter performs
  exactly one assignment to the style of the surface, the background colour; the
  background image, the width and the height keep their values.
\<close>

theorem set_props_backgroundColor_only:
  assumes "backgroundColor next \<noteq> backgroundColor (get_props this)"
    and "backgroundURL next = backgroundURL (get_props this)"
    and "width next = width (get_props this)"
    and "height next = height (get_props this)"
  shows "mutations (containerRef (set_props next this)) =
           mutations (containerRef this) @ [(BackgroundColor, backgroundColor next)] \<and>
         style (containerRef (set_props next this)) =
           (style (containerRef this))(BackgroundColor := backgroundColor next) \<and>
         children (containerRef (set_props next this)) = children (containerRef this)"
  using assms
  by (simp add: set_props_def render_def get_props_def sizeChanged_def setStyle_def Let_def)

theorem set_props_backgroundColor_only_witness:
  "backgroundColor (exampleProps\<lparr>backgroundColor := Some ''black''\<rparr>) \<noteq>
     backgroundColor (get_props exampleConsole) \<and>
   backgroundURL (exampleProps\<lparr>backgroundColor := Some ''black''\<rparr>) =
     backgroundURL (get_props exampleConsole) \<and>
   width (exampleProps\<lparr>backgroundColor := Some ''black''\<rparr>) = width (get_props exampleConsole) \<and>
   height (exampleProps\<lparr>backgroundColor := Some ''black''\<rparr>) = height (get_props exampleConsole) \<and>
   mutations (containerRef (set_props (exampleProps\<lparr>backgroundColor := Some ''black''\<rparr>)
     exampleConsole)) = [(BackgroundColor, Some ''black'')]"
proof -
  let ?next = "exampleProps\<lparr>backgroundColor := Some ''black''\<rparr>"
  have h1: "backgroundColor ?next \<noteq> backgroundColor (get_props exampleConsole)"
    by (simp add: exampleConsole_def exampleProps_def get_props_def)
  have h2: "backgroundURL ?next = backgroundURL (get_props exampleConsole)"
    by (simp add: exampleConsole_def exampleProps_def get_props_def)
  have h3: "width ?next = width (get_props exampleConsole)"
    by (simp add: exampleConsole_def exampleProps_def get_props_def)
  have h4: "height ?next = height (get_props exampleConsole)"
    by (simp add: exampleConsole_def exampleProps_def get_props_def)
  have "mutations (containerRef (set_props ?next exampleConsole)) =
      mutations (containerRef exampleConsole) @ [(BackgroundColor, backgroundColor ?next)]"
    using set_props_backgroundColor_only [OF h1 h2 h3 h4] by (elim conjE)
  then have "mutations (containerRef (set_props ?next exampleConsole)) =
      [(BackgroundColor, Some ''black'')]"
    by (simp add: exampleConsole_def emptyContainer_def)
  with h1 h2 h3 h4 show ?thesis by blast
qed

text \<open>
  C4. When the new props agree with the stored ones in \<^verbatim>\<open>width\<close>, \<^verbatim>\<open>height\<close>,
  \<^verbatim>\<open>backgroundURL\<close> and \<^verbatim>\<open>backgroundColor\<close>, the setter performs no assignment to
  the style of the surface.
\<close>

theorem set_props_unchanged_no_mutation:
  assumes "width next = width (get_props this)"
    and "height next = height (get_props this)"
    and "backgroundURL next = backgroundURL (get_props this)"
    and "backgroundColor next = backgroundColor (get_props this)"
  shows "mutations (containerRef (set_props next this)) = mutations (containerRef this) \<and>
         style (containerRef (set_props next this)) = style (containerRef this)"
  using set_props_same_visuals [of "next" this] assms by simp

theorem set_props_unchanged_no_mutation_witness:
  "width exampleProps = width (get_props exampleConsole) \<and>
   height exampleProps = height (get_props exampleConsole) \<and>
   backgroundURL exampleProps = backgroundURL (get_props exampleConsole) \<and>
   backgroundColor exampleProps = backgroundColor (get_props exampleConsole) \<and>
   mutations (containerRef (set_props exampleProps exampleConsole)) = []"
proof -
  have h: "get_props exampleConsole = exampleProps"
    by (simp add: exampleConsole_def get_props_def)
  have "mutations (containerRef (set_props exampleProps exampleConsole)) =
      mutations (containerRef exampleConsole)"
    using set_props_unchanged_no_mutation [of exampleProps exampleConsole] h by simp
  then show ?thesis by (simp add: h) (simp add: exampleConsole_def emptyContainer_def)
qed

text \<open>
  C10. When the new props agree with the stored ones in \<^verbatim>\<open>backgroundURL\<close>,
  \<^verbatim>\<open>backgroundColor\<close>, \<^verbatim>\<open>width\<close> and \<^verbatim>\<open>height\<close>, whatever their \<^verbatim>\<open>id\<close>,
  \<^verbatim>\<open>name\<close>, \<^verbatim>\<open>groupId\<close> and \<^verbatim>\<open>isFavorite\<close>, the setter stores the new record
  and leaves the surface as it was: style, children and the list of assignments.
\<close>

theorem set_props_identity_fields_absorbed:
  assumes "backgroundURL next = backgroundURL (get_props this)"
    and "backgroundColor next = backgroundColor (get_props this)"
    and "width next = width (get_props this)"
    and "height next = height (get_props this)"
  shows "get_props (set_props next this) = next \<and>
         containerRef (set_props next this) = containerRef this \<and>
         elements (set_props next this) = elements this"
  using set_props_same_visuals [of "next" this] assms by (simp add: get_props_def)

theorem set_props_identity_fields_absorbed_witness:
  "get_props (set_props
      (exampleProps\<lparr>id_console := 2, name := ''renamed'', groupId := 9, isFavorite := True\<rparr>)
      exampleConsole) =
     exampleProps\<lparr>id_console := 2, name := ''renamed'', groupId := 9, isFavorite := True\<rparr> \<and>
   exampleProps\<lparr>id_console := 2, name := ''renamed'', groupId := 9, isFavorite := True\<rparr> \<noteq>
     get_props exampleConsole \<and>
   containerRef (set_props
      (exampleProps\<lparr>id_console := 2, name := ''renamed'', groupId := 9, isFavorite := True\<rparr>)
      exampleConsole) = containerRef exampleConsole"
proof -
  let ?next = "exampleProps\<lparr>id_console := 2, name := ''renamed'', groupId := 9, isFavorite := True\<rparr>"
  have h: "get_props exampleConsole = exampleProps"
    by (simp add: exampleConsole_def get_props_def)
  have ne: "?next \<noteq> get_props exampleConsole"
    by (simp add: h) (simp add: exampleProps_def)
  from set_props_identity_fields_absorbed [of ?next exampleConsole] h ne
  show ?thesis by simp
qed

text \<open>
  C8. \<^verbatim>\<open>resize(w, h)\<close> is the setter applied to the stored props with \<^verbatim>\<open>width\<close> and
  \<^verbatim>\<open>height\<close> replaced. The other fields of the stored props are kept; the assignments
  to the style are the two of the size when the size changed and none otherwise; the
  backgrounds, the children of the surface and the collection stay as they were.
\<close>

theorem resize_is_set_props:
  "resize w h this = set_props ((get_props this)\<lparr>width := w, height := h\<rparr>) this \<and>
   get_props (resize w h this) = (get_props this)\<lparr>width := w, height := h\<rparr> \<and>
   id_console (get_props (resize w h this)) = id_console (get_props this) \<and>
   name (get_props (resize w h this)) = name (get_props this) \<and>
   groupId (get_props (resize w h this)) = groupId (get_props this) \<and>
   backgroundURL (get_props (resize w h this)) = backgroundURL (get_props this) \<and>
   backgroundColor (get_props (resize w h this)) = backgroundColor (get_props this) \<and>
   isFavorite (get_props (resize w h this)) = isFavorite (get_props this) \<and>
   mutations (containerRef (resize w h this)) =
     mutations (containerRef this) @
       (if sizeChanged (get_props this) ((get_props this)\<lparr>width := w, height := h\<rparr>)
        then [(Width, Some (numberToString w @ ''px'')), (Height, Some (numberToString h @ ''px''))]
        else []) \<and>
   style (containerRef (resize w h this)) BackgroundImage = style (containerRef this) BackgroundImage \<and>
   style (containerRef (resize w h this)) BackgroundColor = style (containerRef this) BackgroundColor \<and>
   children (containerRef (resize w h this)) = children (containerRef this) \<and>
   elements (resize w h this) = elements this"
  by (simp add: resize_def set_props_def render_def get_props_def sizeChanged_def setStyle_def
      resizeElement_def Let_def)

theorem resize_is_set_props_witness:
  "mutations (containerRef (resize 1024 768 exampleConsole)) =
     [(Width, Some ''1024px''), (Height, Some ''768px'')] \<and>
   mutations (containerRef (resize 800 600 exampleConsole)) = [] \<and>
   get_props (resize 1024 768 exampleConsole) = exampleProps\<lparr>width := 1024, height := 768\<rparr>"
proof -
  have h: "get_props exampleConsole = exampleProps"
    by (simp add: exampleConsole_def get_props_def)
  have m: "mutations (containerRef exampleConsole) = []"
    by (simp add: exampleConsole_def emptyContainer_def)
  have s1: "numberToString 1024 @ ''px'' = ''1024px''" by code_simp
  have s2: "numberToString 768 @ ''px'' = ''768px''" by code_simp
  have "mutations (containerRef (resize 1024 768 exampleConsole)) =
     mutations (containerRef exampleConsole) @
       (if sizeChanged (get_props exampleConsole)
             ((get_props exampleConsole)\<lparr>width := 1024, height := 768\<rparr>)
        then [(Width, Some (numberToString 1024 @ ''px'')),
              (Height, Some (numberToString 768 @ ''px''))]
        else [])"
    using resize_is_set_props [of 1024 768 exampleConsole] by (elim conjE)
  then have a: "mutations (containerRef (resize 1024 768 exampleConsole)) =
     [(Width, Some ''1024px''), (Height, Some ''768px'')]"
    by (simp add: h m s1 s2 sizeChanged_def exampleProps_def)
  have "mutations (containerRef (resize 800 600 exampleConsole)) =
     mutations (containerRef exampleConsole) @
       (if sizeChanged (get_props exampleConsole)
             ((get_props exampleConsole)\<lparr>width := 800, height := 600\<rparr>)
        then [(Width, Some (numberToString 800 @ ''px'')),
              (Height, Some (numberToString 600 @ ''px''))]
        else [])"
    using resize_is_set_props [of 800 600 exampleConsole] by (elim conjE)
  then have b: "mutations (containerRef (resize 800 600 exampleConsole)) = []"
    by (simp add: h m sizeChanged_def exampleProps_def)
  have "get_props (resize 1024 768 exampleConsole) =
      (get_props exampleConsole)\<lparr>width := 1024, height := 768\<rparr>"
    using resize_is_set_props [of 1024 768 exampleConsole] by (elim conjE)
  then have c: "get_props (resize 1024 768 exampleConsole) =
      exampleProps\<lparr>width := 1024, height := 768\<rparr>"
    by (simp add: h)
  from a b c show ?thesis by simp
qed

subsection \<open>The factory\<close>

lemma itemInstanceFrom_not_found:
  assumes "parseIntOr (data ''type'') None = Some t"
    and "t \<noteq> itemTypeValue L STATIC_GRAPH" and "t \<noteq> itemTypeValue L ICON"
    and "t \<noteq> itemTypeValue L GROUP_ITEM" and "t \<noteq> itemTypeValue L COLOR_CLOUD"
  shows "itemInstanceFrom L data = Inl (TypeError ''item not found'')"
  using assms by (simp add: itemInstanceFrom_def)

lemma itemInstanceFrom_missing:
  assumes "parseIntOr (data ''type'') None = None"
  shows "itemInstanceFrom L data = Inl (TypeError ''missing item type.'')"
  using assms by (simp add: itemInstanceFrom_def)

lemma demoItemTypeValue_inj: "inj demoItemTypeValue"
proof (rule injI)
  fix x y
  assume "demoItemTypeValue x = demoItemTypeValue y"
  then show "x = y" by (cases x; cases y; simp)
qed

text \<open>
  C6. A descriptor whose \<^verbatim>\<open>type\<close> is absent (\<^verbatim>\<open>undefined\<close> or \<^verbatim>\<open>null\<close>) or is
  not integer-parseable makes the factory throw "missing item type."; one whose
  \<^verbatim>\<open>type\<close> parses to a number other than the values of \<^verbatim>\<open>STATIC_GRAPH\<close>,
  \<^verbatim>\<open>ICON\<close>, \<^verbatim>\<open>GROUP_ITEM\<close> and \<^verbatim>\<open>COLOR_CLOUD\<close> makes it throw "item not found":
  that covers every number outside the enumeration and, the members having distinct values,
  every other member. In no such case does the factory return an instance.
\<close>

theorem itemInstanceFrom_rejects:
  "(data ''type'' = JUndefined \<or> data ''type'' = JNull \<or> parseInt (data ''type'') = None \<longrightarrow>
      itemInstanceFrom L data = Inl (TypeError ''missing item type.'')) \<and>
   (\<not> looseNull (data ''type'') \<and> parseInt (data ''type'') = Some t \<and>
    t \<notin> {itemTypeValue L STATIC_GRAPH, itemTypeValue L ICON,
          itemTypeValue L GROUP_ITEM, itemTypeValue L COLOR_CLOUD} \<longrightarrow>
      itemInstanceFrom L data = Inl (TypeError ''item not found'')) \<and>
   (\<not> looseNull (data ''type'') \<and> parseInt (data ''type'') = Some (itemTypeValue L k) \<and>
    inj (itemTypeValue L) \<and> k \<notin> {STATIC_GRAPH, ICON, GROUP_ITEM, COLOR_CLOUD} \<longrightarrow>
      itemInstanceFrom L data = Inl (TypeError ''item not found''))"
proof -
  have a: "itemInstanceFrom L data = Inl (TypeError ''missing item type.'')"
    if "data ''type'' = JUndefined \<or> data ''type'' = JNull \<or> parseInt (data ''type'') = None"
  proof (rule itemInstanceFrom_missing)
    show "parseIntOr (data ''type'') None = None"
      using that by (auto simp add: parseIntOr_def looseNull_def)
  qed
  have b: "itemInstanceFrom L data = Inl (TypeError ''item not found'')"
    if "\<not> looseNull (data ''type'')" "parseInt (data ''type'') = Some u"
       "u \<notin> {itemTypeValue L STATIC_GRAPH, itemTypeValue L ICON,
          itemTypeValue L GROUP_ITEM, itemTypeValue L COLOR_CLOUD}" for u
  proof (rule itemInstanceFrom_not_found)
    show "parseIntOr (data ''type'') None = Some u"
      using that(1,2) by (simp add: parseIntOr_def)
  qed (use that(3) in auto)
  have c: "itemTypeValue L k \<notin> {itemTypeValue L STATIC_GRAPH, itemTypeValue L ICON,
          itemTypeValue L GROUP_ITEM, itemTypeValue L COLOR_CLOUD}"
    if "inj (itemTypeValue L)" "k \<notin> {STATIC_GRAPH, ICON, GROUP_ITEM, COLOR_CLOUD}"
    using that by (auto dest: injD)
  from a b [of t] b [of "itemTypeValue L k"] c show ?thesis by blast
qed

theorem itemInstanceFrom_rejects_witness:
  "itemInstanceFrom demoImports (object [(''id'', JNum 1)]) =
     Inl (TypeError ''missing item type.'') \<and>
   itemInstanceFrom demoImports (object [(''type'', JStr ''abc''), (''id'', JNum 1)]) =
     Inl (TypeError ''missing item type.'') \<and>
   itemInstanceFrom demoImports (object [(''type'', JNum 999), (''id'', JNum 1)]) =
     Inl (TypeError ''item not found'') \<and>
   itemInstanceFrom demoImports (object [(''type'', JStr ''4''), (''id'', JNum 1)]) =
     Inl (TypeError ''item not found'')"
proof -
  let ?d1 = "object [(''id'', JNum 1)]"
  let ?d2 = "object [(''type'', JStr ''abc''), (''id'', JNum 1)]"
  let ?d3 = "object [(''type'', JNum 999), (''id'', JNum 1)]"
  let ?d4 = "object [(''type'', JStr ''4''), (''id'', JNum 1)]"
  have t1: "?d1 ''type'' = JUndefined" by (simp add: object_def)
  have t2: "?d2 ''type'' = JStr ''abc''" by (simp add: object_def)
  have p2: "parseInt (JStr ''abc'') = None" by code_simp
  have t3: "?d3 ''type'' = JNum 999" by (simp add: object_def)
  have p3: "parseInt (JNum 999) = Some 999" by code_simp
  have t4: "?d4 ''type'' = JStr ''4''" by (simp add: object_def)
  have p4: "parseInt (JStr ''4'') = Some (itemTypeValue demoImports LABEL)"
    by (simp add: demoImports_def) code_simp
  have v: "itemTypeValue demoImports = demoItemTypeValue" by (simp add: demoImports_def)
  have a: "itemInstanceFrom demoImports ?d1 = Inl (TypeError ''missing item type.'')"
    using itemInstanceFrom_rejects [of ?d1 demoImports 0 LABEL] t1 by simp
  have b: "itemInstanceFrom demoImports ?d2 = Inl (TypeError ''missing item type.'')"
    using itemInstanceFrom_rejects [of ?d2 demoImports 0 LABEL] t2 p2 by simp
  have c: "itemInstanceFrom demoImports ?d3 = Inl (TypeError ''item not found'')"
    using itemInstanceFrom_rejects [of ?d3 demoImports 999 LABEL] t3 p3
    by (simp add: looseNull_def v)
  have d: "itemInstanceFrom demoImports ?d4 = Inl (TypeError ''item not found'')"
    using itemInstanceFrom_rejects [of ?d4 demoImports 0 LABEL] t4 p4 demoItemTypeValue_inj
    by (simp add: looseNull_def v)
  from a b c d show ?thesis by simp
qed

subsection \<open>The console props decoder\<close>

lemma decoder_invalid_id:
  "looseNull (data ''id'') \<or> parseInt (data ''id'') = None \<Longrightarrow>
     visualConsolePropsDecoder L data = Inl (TypeError ''invalid Id.'')"
  by (auto simp add: visualConsolePropsDecoder_def)

lemma decoder_invalid_name:
  "\<forall>s. data ''name'' = JStr s \<longrightarrow> s = [] \<Longrightarrow>
     visualConsolePropsDecoder L data = Inl (TypeError ''invalid Id.'') \<or>
     visualConsolePropsDecoder L data = Inl (TypeError ''invalid name.'')"
  by (auto simp add: visualConsolePropsDecoder_def split: option.splits jsval.splits)

lemma decoder_invalid_groupId:
  "looseNull (data ''groupId'') \<or> parseInt (data ''groupId'') = None \<Longrightarrow>
     visualConsolePropsDecoder L data \<in>
       {Inl (TypeError ''invalid Id.''), Inl (TypeError ''invalid name.''),
        Inl (TypeError ''invalid group Id.'')}"
  by (auto simp add: visualConsolePropsDecoder_def split: option.splits jsval.splits)

lemma decoder_success:
  assumes "visualConsolePropsDecoder L data = Inr p"
  shows "\<not> looseNull (data ''id'') \<and> parseInt (data ''id'') = Some (id_console p) \<and>
         data ''name'' = JStr (name p) \<and> name p \<noteq> [] \<and>
         \<not> looseNull (data ''groupId'') \<and> parseInt (data ''groupId'') = Some (groupId p) \<and>
         sizePropsDecoder L data = Inr \<lparr>width = width p, height = height p\<rparr> \<and>
         backgroundURL p = nonEmptyStringOrNull (data ''backgroundURL'') \<and>
         backgroundColor p = nonEmptyStringOrNull (data ''backgroundColor'') \<and>
         isFavorite p = parseBoolean L (data ''isFavorite'')"
  using assms
  by (auto simp add: visualConsolePropsDecoder_def
      split: option.splits jsval.splits if_splits sum.splits)

text \<open>
  C7. When \<^verbatim>\<open>id\<close> is \<^verbatim>\<open>null\<close>, absent or not integer-parseable, or \<^verbatim>\<open>name\<close>
  is not a non-empty string, or \<^verbatim>\<open>groupId\<close> is \<^verbatim>\<open>null\<close>, absent or not
  integer-parseable, the decoder throws one of its three type errors and returns no
  record. Decoding is atomic: a returned record has every field populated from a valid
  input (parsed \<^verbatim>\<open>id\<close> and \<^verbatim>\<open>groupId\<close>, the non-empty \<^verbatim>\<open>name\<close>, the decoded
  size, the normalised backgrounds, the coerced \<^verbatim>\<open>isFavorite\<close>); otherwise the result
  is a thrown error.
\<close>

theorem visualConsolePropsDecoder_atomic:
  "(looseNull (data ''id'') \<or> parseInt (data ''id'') = None \<or>
    (\<forall>s. data ''name'' = JStr s \<longrightarrow> s = []) \<or>
    looseNull (data ''groupId'') \<or> parseInt (data ''groupId'') = None \<longrightarrow>
      visualConsolePropsDecoder L data \<in>
        {Inl (TypeError ''invalid Id.''), Inl (TypeError ''invalid name.''),
         Inl (TypeError ''invalid group Id.'')}) \<and>
   (\<forall>p. visualConsolePropsDecoder L data = Inr p \<longrightarrow>
      \<not> looseNull (data ''id'') \<and> parseInt (data ''id'') = Some (id_console p) \<and>
      data ''name'' = JStr (name p) \<and> name p \<noteq> [] \<and>
      \<not> looseNull (data ''groupId'') \<and> parseInt (data ''groupId'') = Some (groupId p) \<and>
      sizePropsDecoder L data = Inr \<lparr>width = width p, height = height p\<rparr> \<and>
      backgroundURL p = nonEmptyStringOrNull (data ''backgroundURL'') \<and>
      backgroundColor p = nonEmptyStringOrNull (data ''backgroundColor'') \<and>
      isFavorite p = parseBoolean L (data ''isFavorite''))"
proof -
  have rej: "visualConsolePropsDecoder L data \<in>
        {Inl (TypeError ''invalid Id.''), Inl (TypeError ''invalid name.''),
         Inl (TypeError ''invalid group Id.'')}"
    if "looseNull (data ''id'') \<or> parseInt (data ''id'') = None \<or>
        (\<forall>s. data ''name'' = JStr s \<longrightarrow> s = []) \<or>
        looseNull (data ''groupId'') \<or> parseInt (data ''groupId'') = None"
    using that decoder_invalid_id [of data L] decoder_invalid_name [of data L]
      decoder_invalid_groupId [of data L] by blast
  from rej decoder_success show ?thesis by blast
qed

theorem visualConsolePropsDecoder_atomic_witness:
  "visualConsolePropsDecoder demoImports
     (object [(''name'', JStr ''main''), (''groupId'', JNum 0),
              (''width'', JNum 10), (''height'', JNum 20)]) \<in>
     {Inl (TypeError ''invalid Id.''), Inl (TypeError ''invalid name.''),
      Inl (TypeError ''invalid group Id.'')} \<and>
   visualConsolePropsDecoder demoImports
     (object [(''id'', JStr ''4''), (''name'', JStr ''main''), (''groupId'', JNum 0),
              (''width'', JNum 10), (''height'', JNum 20)]) =
     Inr \<lparr>width = 10, height = 20, id_console = 4, name = ''main'', groupId = 0,
          backgroundURL = None, backgroundColor = None, isFavorite = False\<rparr> \<and>
   parseInt (object [(''id'', JStr ''4''), (''name'', JStr ''main''), (''groupId'', JNum 0),
              (''width'', JNum 10), (''height'', JNum 20)] ''id'') = Some 4"
proof -
  let ?bad = "object [(''name'', JStr ''main''), (''groupId'', JNum 0),
              (''width'', JNum 10), (''height'', JNum 20)]"
  let ?good = "object [(''id'', JStr ''4''), (''name'', JStr ''main''), (''groupId'', JNum 0),
              (''width'', JNum 10), (''height'', JNum 20)]"
  let ?p = "\<lparr>width = 10, height = 20, id_console = 4, name = ''main'', groupId = 0,
          backgroundURL = None, backgroundColor = None, isFavorite = False\<rparr>"
  have n: "looseNull (?bad ''id'')" by (simp add: object_def looseNull_def)
  have a: "visualConsolePropsDecoder demoImports ?bad \<in>
     {Inl (TypeError ''invalid Id.''), Inl (TypeError ''invalid name.''),
      Inl (TypeError ''invalid group Id.'')}"
    using visualConsolePropsDecoder_atomic [of ?bad demoImports] n by blast
  have g: "visualConsolePropsDecoder demoImports ?good = Inr ?p" by code_simp
  have "parseInt (?good ''id'') = Some (id_console ?p)"
    using visualConsolePropsDecoder_atomic [of ?good demoImports] g by blast
  then have b: "parseInt (?good ''id'') = Some 4" by simp
  from a g b show ?thesis by blast
qed

subsection \<open>The constructor\<close>

lemma created_Nil: "created L [] = []"
  by (simp add: created_def)

lemma created_Cons:
  "created L (x # xs) =
     (case itemInstanceFrom L x of Inr i \<Rightarrow> [onClick LogClicked i] | Inl e \<Rightarrow> []) @ created L xs"
  by (simp add: created_def)

lemma length_created: "length (created L items) + length (failing L items) = length items"
  by (induction items) (auto simp add: created_Nil created_Cons failing_def split: sum.splits)

lemma foldl_addItem_elements:
  "elements (foldl (addItem L) this items) = elements this @ created L items"
  by (induction items arbitrary: this)
     (auto simp add: created_Nil created_Cons addItem_def split: sum.splits)

lemma foldl_addItem_consoleLog:
  "consoleLog (foldl (addItem L) this items) =
     consoleLog this @
       concat (map (\<lambda>item. case itemInstanceFrom L item of
                 Inl e \<Rightarrow> [''Error creating a new element: '' @ message e] | Inr i \<Rightarrow> []) items)"
  by (induction items arbitrary: this)
     (auto simp add: addItem_def split: sum.splits)



lemma new_VisualConsole_elements:
  "elements (new_VisualConsole L container p items) = sortElements (created L items)"
  by (simp add: new_VisualConsole_def Let_def foldl_addItem_elements render_def
      resizeElement_def get_props_def)


lemma new_VisualConsole_consoleLog:
  "consoleLog (new_VisualConsole L container p items) =
     concat (map (\<lambda>item. case itemInstanceFrom L item of
                 Inl e \<Rightarrow> [''Error creating a new element: '' @ message e] | Inr i \<Rightarrow> []) items)"
  by (simp add: new_VisualConsole_def Let_def foldl_addItem_consoleLog render_def
      resizeElement_def get_props_def)

lemma length_diagnostics:
  "length (concat (map (\<lambda>item. case itemInstanceFrom L item of
                 Inl e \<Rightarrow> [''Error creating a new element: '' @ message e] | Inr i \<Rightarrow> []) items)) =
   length (failing L items)"
  by (induction items) (auto simp add: failing_def split: sum.splits)

lemma created_member:
  "item \<in> set items \<Longrightarrow> itemInstanceFrom L item = Inr i \<Longrightarrow>
     onClick LogClicked i \<in> set (created L items)"
  by (induction items) (auto simp add: created_Cons split: sum.splits)

text \<open>
  C5. For N descriptors of which K make the factory throw, the constructor returns a
  console whose collection has exactly N - K instances: the instances of the accepted
  descriptors, each with the click handler, whatever their position relative to the
  failing ones. Each failing descriptor leaves one line on the console log and nothing
  else.
\<close>

theorem new_VisualConsole_skips_failures:
  "length (elements (new_VisualConsole L container p items)) =
     length items - length (failing L items) \<and>
   length (failing L items) \<le> length items \<and>
   mset (elements (new_VisualConsole L container p items)) = mset (created L items) \<and>
   (\<forall>item i. item \<in> set items \<and> itemInstanceFrom L item = Inr i \<longrightarrow>
      onClick LogClicked i \<in> set (elements (new_VisualConsole L container p items))) \<and>
   length (consoleLog (new_VisualConsole L container p items)) = length (failing L items)"
proof -
  let ?V = "new_VisualConsole L container p items"
  have perm: "mset (elements ?V) = mset (created L items)"
    by (simp add: new_VisualConsole_elements sortElements_def mset_array_sort)
  then have "length (elements ?V) = length (created L items)"
    by (rule mset_eq_length)
  with length_created [of L items]
  have len: "length (elements ?V) = length items - length (failing L items)"
    and le: "length (failing L items) \<le> length items" by simp_all
  have mem: "onClick LogClicked i \<in> set (elements ?V)"
    if "item \<in> set items \<and> itemInstanceFrom L item = Inr i" for item i
  proof -
    from that have "onClick LogClicked i \<in> set (created L items)"
      using created_member [of item items L i] by blast
    with perm show ?thesis by (metis set_mset_mset)
  qed
  have log: "length (consoleLog ?V) = length (failing L items)"
    by (simp only: new_VisualConsole_consoleLog length_diagnostics)
  from len le perm mem log show ?thesis by blast
qed

theorem new_VisualConsole_skips_failures_witness:
  "length (elements (new_VisualConsole demoImports emptyContainer exampleProps
     [object [(''type'', JNum 5), (''id'', JNum 1)],
      object [(''type'', JNum 999)],
      object [(''type'', JStr ''11''), (''id'', JStr ''2'')]])) = 3 - 1 \<and>
   length (failing demoImports
     [object [(''type'', JNum 5), (''id'', JNum 1)],
      object [(''type'', JNum 999)],
      object [(''type'', JStr ''11''), (''id'', JStr ''2'')]]) = 1 \<and>
   consoleLog (new_VisualConsole demoImports emptyContainer exampleProps
     [object [(''type'', JNum 5), (''id'', JNum 1)],
      object [(''type'', JNum 999)],
      object [(''type'', JStr ''11''), (''id'', JStr ''2'')]]) = [''Error creating a new element: item not found'']"
proof -
  let ?items = "[object [(''type'', JNum 5), (''id'', JNum 1)],
      object [(''type'', JNum 999)],
      object [(''type'', JStr ''11''), (''id'', JStr ''2'')]]"
  have k: "length (failing demoImports ?items) = 1" by code_simp
  have l: "consoleLog (new_VisualConsole demoImports emptyContainer exampleProps ?items) =
      [''Error creating a new element: item not found'']" by code_simp
  have "length (elements (new_VisualConsole demoImports emptyContainer exampleProps ?items)) =
      length ?items - length (failing demoImports ?items)"
    using new_VisualConsole_skips_failures [of demoImports emptyContainer exampleProps ?items]
    by (elim conjE)
  with k l show ?thesis by simp
qed




end
